theory Spec2Isabelle
  imports Main "HOL-Library.AList"
begin

section \<open>Data model of the hotkey settings page\<close>

text \<open>
  The records follow the TypeScript interfaces of the hotkeys manager component and of the
  hotkey item component. An optional field (\<^verbatim>\<open>mac?: string\<close>) is an \<open>option\<close>; a JavaScript
  object used as a dictionary from \<^verbatim>\<open>section:element\<close> strings to override entries is a map.
  Field names carry a prefix where the plain name is taken in Isabelle.
\<close>

record Hotkey =
  hk_id :: string
  hk_section :: string
  hk_element :: string
  hk_label :: string
  hk_key :: string
  hk_mac :: "string option"
  hk_active :: bool
  hk_subgroup :: "string option"
  hk_description :: "string option"

record Section =
  sec_id :: string
  sec_title :: string
  sec_description :: "string option"

record HotkeySettings =
  hs_autoTranslatePlatforms :: bool

text \<open>One entry of \<^verbatim>\<open>custom_hotkeys\<close>: \<^verbatim>\<open>{ key, active, description? }\<close>.\<close>

record CustomSetting =
  cs_key :: string
  cs_active :: bool
  cs_description :: "string option"

type_synonym CustomHotkeys = "string \<rightharpoonup> CustomSetting"

record DuplicateConfirmDialog =
  dlg_open :: bool
  dlg_hotkeyId :: "string option"
  dlg_newKey :: "string option"
  dlg_conflictingHotkeys :: "Hotkey list"

record ExportData =
  ex_hotkeys :: "Hotkey list"
  ex_settings :: HotkeySettings
  ex_exportedAt :: string
  ex_version :: string

text \<open>
  \<^verbatim>\<open>ImportData | Hotkey[]\<close>: either a bare array (the old format) or an object whose
  \<^verbatim>\<open>hotkeys\<close> and \<^verbatim>\<open>settings\<close> may both be missing; the settings object read from a file may
  lack its only field.
\<close>

record ImportedSettings =
  is_autoTranslatePlatforms :: "bool option"

datatype ImportData =
  ImportedArray "Hotkey list"
| ImportedObject "Hotkey list option" "ImportedSettings option"

record ApiResponse =
  ar_custom_hotkeys :: "CustomHotkeys option"
  ar_hotkey_settings :: "HotkeySettings option"
  ar_error :: "string option"

record SaveResult =
  sr_ok :: bool
  sr_error :: "string option"
  sr_data :: "ApiResponse option"

record RequestBody =
  rb_custom_hotkeys :: CustomHotkeys
  rb_hotkey_settings :: HotkeySettings

text \<open>
  What \<^verbatim>\<open>api.callApi\<close> can do: resolve with a response (possibly null) or reject with a
  thrown value. Of a thrown object the catch block reads whether it has a \<^verbatim>\<open>response\<close>
  property (\<open>None\<close>: no such property, \<open>Some None\<close>: the property holds no object), the
  response's \<^verbatim>\<open>status\<close> and \<^verbatim>\<open>data.error\<close>, and whether it has a \<^verbatim>\<open>request\<close> property.
\<close>

record HttpErrorResponse =
  er_status :: "int option"
  er_data_error :: "string option"

datatype Thrown =
  ThrownValue
| ThrownObject "HttpErrorResponse option option" bool

datatype ApiOutcome =
  Resolved "ApiResponse option"
| Rejected Thrown

text \<open>An exception that leaves a function of the component, with its message.\<close>

datatype JsException = ReferenceError string

datatype ToastType = ToastInfo | ToastError

text \<open>
  What the component reads from outside itself: the compiled-in catalogues imported from
  the defaults module (which is not among the sources, so they are parameters), the
  page's \<^verbatim>\<open>window.APP_SETTINGS.user\<close> values, whether \<^verbatim>\<open>useToast()\<close> gave a toast object, and
  the binding of the free identifier \<^verbatim>\<open>isReset\<close>. The save function's catch block reads
  \<^verbatim>\<open>isReset\<close>, which no scope of the source declares, so at run time it is looked up on the
  global object: \<open>None\<close> when no script defined such a global (reading it then throws a
  ReferenceError), otherwise the truthiness of its value.
\<close>

record Env =
  DEFAULT_HOTKEYS :: "Hotkey list"
  HOTKEY_SECTIONS :: "Section list"
  app_customHotkeys :: "CustomHotkeys option"
  app_autoTranslatePlatforms :: "bool option"
  toast_available :: bool
  global_isReset :: "bool option"

text \<open>
  The component's React state. \<open>dirtyState\<close> is an object from section ids to booleans,
  kept as an association list in insertion order because the code enumerates its keys.
  \<open>toasts\<close> collects the notifications shown, oldest first.
\<close>

record ManagerState =
  hotkeys :: "Hotkey list"
  isLoading :: bool
  editingHotkeyId :: "string option"
  globalEnabled :: bool
  dirtyState :: "(string \<times> bool) list"
  importDialogOpen :: bool
  autoTranslatePlatforms :: bool
  duplicateConfirmDialog :: DuplicateConfirmDialog
  toasts :: "(string \<times> ToastType) list"

section \<open>Key capture (hotkey item component)\<close>

record KeyboardEvent =
  ev_key :: string
  ctrlKey :: bool
  shiftKey :: bool
  altKey :: bool
  metaKey :: bool

record ItemState =
  editedKey :: string
  keyRecordingMode :: bool
  item_error :: string

text \<open>
  \<^verbatim>\<open>String.prototype.toLowerCase\<close> belongs to the JavaScript runtime and lower-cases
  every letter of Unicode, not only the ASCII ones. The handler takes it as the parameter
  \<open>toLowerCase\<close>, so what is proved below holds for the runtime's function whatever it does
  to a particular character.
\<close>

text \<open>\<^verbatim>\<open>Array.prototype.join\<close>.\<close>

fun join :: "string \<Rightarrow> string list \<Rightarrow> string" where
  "join sep [] = []"
| "join sep [x] = x"
| "join sep (x # y # ys) = x @ sep @ join sep (y # ys)"

definition isModifierKey :: "string \<Rightarrow> bool" where
  "isModifierKey k \<longleftrightarrow> k \<in> set [''Control'', ''Shift'', ''Alt'', ''Meta'']"

text \<open>The key combination array, built by the four conditional pushes and the final push.\<close>

definition keyComboOf :: "(string \<Rightarrow> string) \<Rightarrow> KeyboardEvent \<Rightarrow> string list" where
  "keyComboOf toLowerCase e =
     (let keyCombo = [];
          keyCombo = (if ctrlKey e then keyCombo @ [''ctrl''] else keyCombo);
          keyCombo = (if shiftKey e then keyCombo @ [''shift''] else keyCombo);
          keyCombo = (if altKey e then keyCombo @ [''alt''] else keyCombo);
          keyCombo = (if metaKey e then keyCombo @ [''meta''] else keyCombo)
      in keyCombo @ [toLowerCase (ev_key e)])"

definition handleKeyPress ::
  "(string \<Rightarrow> string) \<Rightarrow> ItemState \<Rightarrow> KeyboardEvent \<Rightarrow> ItemState" where
  "handleKeyPress toLowerCase st e =
     (if \<not> keyRecordingMode st then st
      else if isModifierKey (ev_key e) then st
      else st\<lparr>editedKey := join ''+'' (keyComboOf toLowerCase e), item_error := [],
              keyRecordingMode := False\<rparr>)"

definition startRecordingKeys :: "ItemState \<Rightarrow> ItemState" where
  "startRecordingKeys st = st\<lparr>keyRecordingMode := True, editedKey := [], item_error := []\<rparr>"

text \<open>A recording session: the keydown events delivered to the handler, in order.\<close>

definition keydowns ::
  "(string \<Rightarrow> string) \<Rightarrow> ItemState \<Rightarrow> KeyboardEvent list \<Rightarrow> ItemState" where
  "keydowns toLowerCase st es = foldl (handleKeyPress toLowerCase) st es"

text \<open>
  The canonical key string in the words of the specification: the modifiers that are held,
  in the fixed order ctrl, shift, alt, meta, then the lower-cased key, joined by \<open>+\<close>.
\<close>

definition canonicalKeyString :: "(string \<Rightarrow> string) \<Rightarrow> KeyboardEvent \<Rightarrow> string" where
  "canonicalKeyString toLowerCase e =
     join ''+''
       (map fst (filter snd
          [(''ctrl'', ctrlKey e), (''shift'', shiftKey e), (''alt'', altKey e),
           (''meta'', metaKey e)])
        @ [toLowerCase (ev_key e)])"

section \<open>Merging defaults with overrides, conflict detection\<close>

text \<open>A JavaScript string is truthy when it is not empty.\<close>

definition truthy :: "string \<Rightarrow> bool" where
  "truthy s \<longleftrightarrow> s \<noteq> []"

text \<open>\<^verbatim>\<open>value || fallback\<close> for an optional string.\<close>

definition orElse :: "string option \<Rightarrow> string \<Rightarrow> string" where
  "orElse v fallback = (case v of Some s \<Rightarrow> (if truthy s then s else fallback) | None \<Rightarrow> fallback)"

definition lookupKey :: "Hotkey \<Rightarrow> string" where
  "lookupKey hotkey = hk_section hotkey @ '':'' @ hk_element hotkey"

text \<open>
  An entry of the override object is an object and so always truthy: the test
  \<^verbatim>\<open>if (customHotkeys[lookupKey])\<close> is the test that the key is there. (A lookup key contains
  a colon, so it never names a property inherited from \<^verbatim>\<open>Object.prototype\<close>.) The label is
  overwritten under the guard \<^verbatim>\<open>customSetting.description && ...\<close>, the truthiness of the
  description.
\<close>

definition updateHotkeysWithCustomSettings :: "Hotkey list \<Rightarrow> CustomHotkeys \<Rightarrow> Hotkey list" where
  "updateHotkeysWithCustomSettings defaultHotkeys customHotkeys =
     map (\<lambda>hotkey.
       case customHotkeys (lookupKey hotkey) of
         Some customSetting \<Rightarrow>
           (let merged = hotkey\<lparr>hk_key := cs_key customSetting,
                                 hk_active := cs_active customSetting\<rparr>
            in case cs_description customSetting of
                 Some d \<Rightarrow> (if truthy d then merged\<lparr>hk_label := d\<rparr> else merged)
               | None \<Rightarrow> merged)
       | None \<Rightarrow> hotkey) defaultHotkeys"

definition getGlobalDuplicates :: "Hotkey list \<Rightarrow> string \<Rightarrow> string \<Rightarrow> Hotkey list" where
  "getGlobalDuplicates hs hotkeyId newKey =
     filter (\<lambda>h. hk_id h \<noteq> hotkeyId \<and> hk_key h = newKey) hs"

section \<open>Editing a binding\<close>

definition closedDialog :: DuplicateConfirmDialog where
  "closedDialog =
     \<lparr>dlg_open = False, dlg_hotkeyId = None, dlg_newKey = None, dlg_conflictingHotkeys = []\<rparr>"

definition updateHotkeyKey :: "ManagerState \<Rightarrow> string \<Rightarrow> string \<Rightarrow> ManagerState" where
  "updateHotkeyKey st hotkeyId newKey =
     (case find (\<lambda>h. hk_id h = hotkeyId) (hotkeys st) of
        None \<Rightarrow> st
      | Some hotkey \<Rightarrow>
          st\<lparr>hotkeys :=
               map (\<lambda>h. if hk_id h = hotkeyId then h\<lparr>hk_key := newKey, hk_mac := Some newKey\<rparr>
                         else h) (hotkeys st),
             dirtyState := AList.update (hk_section hotkey) True (dirtyState st),
             editingHotkeyId := None\<rparr>)"

definition handleSaveHotkey :: "ManagerState \<Rightarrow> string \<Rightarrow> string \<Rightarrow> ManagerState" where
  "handleSaveHotkey st hotkeyId newKey =
     (case find (\<lambda>h. hk_id h = hotkeyId) (hotkeys st) of
        None \<Rightarrow> st
      | Some hotkey \<Rightarrow>
          (let conflictingHotkeys = getGlobalDuplicates (hotkeys st) hotkeyId newKey
           in if length conflictingHotkeys > 0
              then st\<lparr>duplicateConfirmDialog :=
                        \<lparr>dlg_open = True, dlg_hotkeyId = Some hotkeyId, dlg_newKey = Some newKey,
                         dlg_conflictingHotkeys = conflictingHotkeys\<rparr>\<rparr>
              else updateHotkeyKey st hotkeyId newKey))"

text \<open>
  \<^verbatim>\<open>if (hotkeyId && newKey)\<close>: both must be there and not empty for the update to go ahead.
\<close>

definition handleConfirmDuplicate :: "ManagerState \<Rightarrow> ManagerState" where
  "handleConfirmDuplicate st =
     (let dialog = duplicateConfirmDialog st;
          st1 = st\<lparr>duplicateConfirmDialog := closedDialog\<rparr>
      in case (dlg_hotkeyId dialog, dlg_newKey dialog) of
           (Some hotkeyId, Some newKey) \<Rightarrow>
             (if truthy hotkeyId \<and> truthy newKey then updateHotkeyKey st1 hotkeyId newKey
              else st1)
         | _ \<Rightarrow> st1)"

definition handleCancelDuplicate :: "ManagerState \<Rightarrow> ManagerState" where
  "handleCancelDuplicate st = st\<lparr>duplicateConfirmDialog := closedDialog\<rparr>"

definition handleCancelEdit :: "ManagerState \<Rightarrow> ManagerState" where
  "handleCancelEdit st = st\<lparr>editingHotkeyId := None\<rparr>"

definition handleToggleHotkey :: "ManagerState \<Rightarrow> string \<Rightarrow> ManagerState" where
  "handleToggleHotkey st hotkeyId =
     (let updatedHotkeys =
            map (\<lambda>hotkey. if hk_id hotkey = hotkeyId
                           then hotkey\<lparr>hk_active := \<not> hk_active hotkey\<rparr> else hotkey)
              (hotkeys st);
          st1 = st\<lparr>hotkeys := updatedHotkeys\<rparr>;
          st2 = (case find (\<lambda>h. hk_id h = hotkeyId) (hotkeys st) of
                   Some hotkey \<Rightarrow>
                     st1\<lparr>dirtyState := AList.update (hk_section hotkey) True (dirtyState st)\<rparr>
                 | None \<Rightarrow> st1)
      in st2\<lparr>globalEnabled := list_all hk_active updatedHotkeys\<rparr>)"

section \<open>Persistence\<close>

text \<open>
  The override object of the request: one assignment \<^verbatim>\<open>customHotkeys[keyId] = {...}\<close> per
  binding, in list order, so a later binding with the same \<^verbatim>\<open>section:element\<close> overwrites
  an earlier one.
\<close>

definition customSettingOf :: "Hotkey \<Rightarrow> CustomSetting" where
  "customSettingOf hotkey =
     \<lparr>cs_key = hk_key hotkey, cs_active = hk_active hotkey,
      cs_description = Some (hk_label hotkey)\<rparr>"

definition customHotkeysOf :: "Hotkey list \<Rightarrow> CustomHotkeys" where
  "customHotkeysOf currentHotkeys =
     foldl (\<lambda>customHotkeys hotkey. customHotkeys(lookupKey hotkey \<mapsto> customSettingOf hotkey))
       Map.empty currentHotkeys"

definition requestBody :: "Hotkey list \<Rightarrow> HotkeySettings \<Rightarrow> RequestBody" where
  "requestBody currentHotkeys currentSettings =
     \<lparr>rb_custom_hotkeys = customHotkeysOf currentHotkeys,
      rb_hotkey_settings =
        (if length currentHotkeys = 0 then \<lparr>hs_autoTranslatePlatforms = True\<rparr>
         else currentSettings)\<rparr>"

text \<open>
  The message the catch block computes once \<^verbatim>\<open>isReset\<close> has a value. A thrown object with
  a \<^verbatim>\<open>response\<close> property takes the first branch whatever the status; only an object with
  no \<^verbatim>\<open>response\<close> but a \<^verbatim>\<open>request\<close> property gets the network message.
\<close>

definition catchMessage :: "bool \<Rightarrow> Thrown \<Rightarrow> string" where
  "catchMessage isReset error =
     (let errorMessage = ''Failed to '' @ (if isReset then ''reset'' else ''save'') @ '' hotkeys''
      in case error of
           ThrownValue \<Rightarrow> errorMessage
         | ThrownObject (Some response) request \<Rightarrow>
             (case response of
                None \<Rightarrow> errorMessage
              | Some r \<Rightarrow>
                  (if er_status r = Some 400
                   then orElse (er_data_error r)
                          (''Invalid '' @
                            (if isReset then ''reset request'' else ''hotkeys configuration''))
                   else if er_status r = Some 401 then ''Authentication required''
                   else if (case er_status r of Some n \<Rightarrow> n \<ge> 500 | None \<Rightarrow> False)
                   then ''Server error - please try again later''
                   else errorMessage))
         | ThrownObject None request \<Rightarrow>
             (if request then ''Network error - please check your connection''
              else errorMessage))"

text \<open>
  The save function returns the request it handed to \<^verbatim>\<open>api.callApi\<close> together with how its
  promise settles: \<open>Inr\<close> a result, or \<open>Inl\<close> an exception. The first statement of the catch
  block reads \<^verbatim>\<open>isReset\<close>.
\<close>

definition saveHotkeysToAPI ::
  "Env \<Rightarrow> (RequestBody \<Rightarrow> ApiOutcome) \<Rightarrow> Hotkey list \<Rightarrow> HotkeySettings
     \<Rightarrow> RequestBody \<times> (JsException + SaveResult)" where
  "saveHotkeysToAPI env callApi currentHotkeys currentSettings =
     (let body = requestBody currentHotkeys currentSettings
      in (body,
          case callApi body of
            Resolved response \<Rightarrow>
              (let succeeded = Inr \<lparr>sr_ok = True, sr_error = None, sr_data = response\<rparr>
               in case response of
                    None \<Rightarrow> succeeded
                  | Some r \<Rightarrow>
                      (case ar_error r of
                         None \<Rightarrow> succeeded
                       | Some e \<Rightarrow>
                           (if truthy e
                            then Inr \<lparr>sr_ok = False, sr_error = Some e, sr_data = response\<rparr>
                            else succeeded)))
          | Rejected error \<Rightarrow>
              (case global_isReset env of
                 None \<Rightarrow> Inl (ReferenceError ''isReset is not defined'')
               | Some isReset \<Rightarrow>
                   Inr \<lparr>sr_ok = False, sr_error = Some (catchMessage isReset error),
                        sr_data = None\<rparr>)))"

definition showToast :: "Env \<Rightarrow> string \<Rightarrow> ToastType \<Rightarrow> ManagerState \<Rightarrow> ManagerState" where
  "showToast env message type st =
     (if toast_available env then st\<lparr>toasts := toasts st @ [(message, type)]\<rparr> else st)"

definition loadHotkeysFromAPI :: "Env \<Rightarrow> ApiOutcome \<Rightarrow> ManagerState \<Rightarrow> ManagerState" where
  "loadHotkeysFromAPI env response st =
     (let st1 = st\<lparr>isLoading := True\<rparr>;
          cached = (case app_customHotkeys env of Some c \<Rightarrow> c | None \<Rightarrow> Map.empty);
          st2 =
            (case response of
               Resolved r \<Rightarrow>
                 (let customHotkeys =
                        (case r of
                           Some apiResponse \<Rightarrow>
                             (case ar_custom_hotkeys apiResponse of Some c \<Rightarrow> c | None \<Rightarrow> cached)
                         | None \<Rightarrow> cached)
                  in st1\<lparr>hotkeys :=
                            updateHotkeysWithCustomSettings (DEFAULT_HOTKEYS env) customHotkeys,
                          autoTranslatePlatforms :=
                            (case app_autoTranslatePlatforms env of
                               Some platformSetting \<Rightarrow> platformSetting
                             | None \<Rightarrow> True)\<rparr>)
             | Rejected error \<Rightarrow>
                 showToast env
                   ''Could not load custom hotkeys from server, using cached settings'' ToastError
                   (st1\<lparr>hotkeys :=
                          updateHotkeysWithCustomSettings (DEFAULT_HOTKEYS env) cached\<rparr>))
      in st2\<lparr>isLoading := False\<rparr>)"

definition hasUnsavedChanges :: "ManagerState \<Rightarrow> bool" where
  "hasUnsavedChanges st \<longleftrightarrow> list_ex (\<lambda>key. key \<noteq> ''settings'') (map fst (dirtyState st))"

definition resetConfirmMessage :: "ManagerState \<Rightarrow> string" where
  "resetConfirmMessage st =
     (if hasUnsavedChanges st \<or> map_of (dirtyState st) ''settings'' = Some True
      then ''Are you sure you want to reset all hotkeys and settings to their default values? This will discard all unsaved changes and cannot be undone.''
      else ''Are you sure you want to reset all hotkeys and settings to their default values? This cannot be undone.'')"

text \<open>
  The handlers that talk to the server return the request bodies they sent, in order,
  with the state they leave. \<open>confirm\<close> is the user's answer to the browser dialog.
\<close>

definition handleResetToDefaults ::
  "Env \<Rightarrow> (string \<Rightarrow> bool) \<Rightarrow> (RequestBody \<Rightarrow> ApiOutcome) \<Rightarrow> ManagerState
     \<Rightarrow> RequestBody list \<times> ManagerState" where
  "handleResetToDefaults env confirm callApi st =
     (if \<not> confirm (resetConfirmMessage st) then ([], st)
      else
        (let st1 = st\<lparr>isLoading := True, hotkeys := DEFAULT_HOTKEYS env, globalEnabled := True,
                      autoTranslatePlatforms := True, dirtyState := []\<rparr>;
             (body, outcome) =
               saveHotkeysToAPI env callApi []
                 \<lparr>hs_autoTranslatePlatforms = autoTranslatePlatforms st\<rparr>;
             st2 =
               (case outcome of
                  Inr result \<Rightarrow>
                    (if sr_ok result
                     then showToast env
                            ''All hotkeys and settings have been reset to defaults and saved''
                            ToastInfo st1
                     else showToast env
                            (''Failed to save reset hotkeys: '' @
                               orElse (sr_error result) ''Unknown error'')
                            ToastError st1)
                | Inl (ReferenceError message) \<Rightarrow>
                    showToast env (''Error resetting hotkeys: '' @ message) ToastError st1)
         in ([body], st2\<lparr>isLoading := False\<rparr>)))"

definition sectionNameOf :: "Env \<Rightarrow> string \<Rightarrow> string" where
  "sectionNameOf env sectionId =
     (if sectionId = ''settings'' then ''Settings''
      else case find (\<lambda>s. sec_id s = sectionId) (HOTKEY_SECTIONS env) of
             Some s \<Rightarrow> sec_title s
           | None \<Rightarrow> ''undefined'')"

definition handleSaveSection ::
  "Env \<Rightarrow> (RequestBody \<Rightarrow> ApiOutcome) \<Rightarrow> ManagerState \<Rightarrow> string
     \<Rightarrow> RequestBody list \<times> ManagerState" where
  "handleSaveSection env callApi st sectionId =
     (let st1 = st\<lparr>isLoading := True\<rparr>;
          (body, outcome) =
            saveHotkeysToAPI env callApi (hotkeys st)
              \<lparr>hs_autoTranslatePlatforms = autoTranslatePlatforms st\<rparr>;
          st2 =
            (case outcome of
               Inr result \<Rightarrow>
                 (if sr_ok result
                  then showToast env (sectionNameOf env sectionId @ '' hotkeys saved successfully'')
                         ToastInfo
                         (st1\<lparr>dirtyState := AList.delete sectionId (dirtyState st)\<rparr>)
                  else showToast env
                         (''Failed to save: '' @ orElse (sr_error result) ''Unknown error'')
                         ToastError st1)
             | Inl (ReferenceError message) \<Rightarrow>
                 showToast env (''Error saving: '' @ message) ToastError st1)
      in ([body], st2\<lparr>isLoading := False\<rparr>))"

section \<open>Export and import\<close>

text \<open>\<open>now\<close> is the ISO string of the clock at the time of the export.\<close>

definition handleExportHotkeys :: "Env \<Rightarrow> string \<Rightarrow> ManagerState \<Rightarrow> ExportData \<times> ManagerState" where
  "handleExportHotkeys env now st =
     (\<lparr>ex_hotkeys = hotkeys st,
       ex_settings = \<lparr>hs_autoTranslatePlatforms = autoTranslatePlatforms st\<rparr>,
       ex_exportedAt = now, ex_version = ''1.0''\<rparr>,
      showToast env ''Hotkeys exported successfully'' ToastInfo st)"

text \<open>
  Modelled from the spec: the import dialog (the module \<^verbatim>\<open>Hotkeys/Import\<close>) is not among the
  sources. It hands the parsed content of the chosen file to the import handler; the
  import side "accepts the export format or a bare binding list". For a file written by
  the export, the parsed object has the exported \<^verbatim>\<open>hotkeys\<close> array and \<^verbatim>\<open>settings\<close> object
  (\<^verbatim>\<open>exportedAt\<close> and \<^verbatim>\<open>version\<close> are not read by the handler).
\<close>

definition readExportFile :: "ExportData \<Rightarrow> ImportData" where
  "readExportFile exportData =
     ImportedObject (Some (ex_hotkeys exportData))
       (Some \<lparr>is_autoTranslatePlatforms =
                Some (hs_autoTranslatePlatforms (ex_settings exportData))\<rparr>)"

text \<open>
  \<open>reload body\<close> is what the \<^verbatim>\<open>hotkeys\<close> request answers after the save request with that
  body went through.
\<close>

definition handleImportHotkeys ::
  "Env \<Rightarrow> (RequestBody \<Rightarrow> ApiOutcome) \<Rightarrow> (RequestBody \<Rightarrow> ApiOutcome) \<Rightarrow> ManagerState
     \<Rightarrow> ImportData \<Rightarrow> RequestBody list \<times> ManagerState" where
  "handleImportHotkeys env callApi reload st importedData =
     (let importedHotkeys =
            (case importedData of
               ImportedArray hs \<Rightarrow> hs
             | ImportedObject hs _ \<Rightarrow> (case hs of Some l \<Rightarrow> l | None \<Rightarrow> []));
          importedSetting =
            (case importedData of
               ImportedArray _ \<Rightarrow> None
             | ImportedObject _ settings \<Rightarrow>
                 (case settings of Some s \<Rightarrow> is_autoTranslatePlatforms s | None \<Rightarrow> None));
          st1 = st\<lparr>isLoading := True, hotkeys := importedHotkeys\<rparr>;
          st2 = (case importedSetting of
                   Some b \<Rightarrow> st1\<lparr>autoTranslatePlatforms := b\<rparr>
                 | None \<Rightarrow> st1);
          st3 = st2\<lparr>globalEnabled := list_all hk_active importedHotkeys\<rparr>;
          settingsToSave =
            \<lparr>hs_autoTranslatePlatforms =
               (case importedSetting of Some b \<Rightarrow> b | None \<Rightarrow> autoTranslatePlatforms st)\<rparr>;
          (body, outcome) = saveHotkeysToAPI env callApi importedHotkeys settingsToSave;
          st4 =
            (case outcome of
               Inr result \<Rightarrow>
                 (if \<not> sr_ok result
                  then showToast env
                         (''Error importing hotkeys: '' @
                            orElse (sr_error result) ''Failed to save imported hotkeys'')
                         ToastError st3
                  else showToast env ''Hotkeys imported successfully'' ToastInfo
                         ((loadHotkeysFromAPI env (reload body) st3)\<lparr>dirtyState := []\<rparr>))
             | Inl (ReferenceError message) \<Rightarrow>
                 showToast env (''Error importing hotkeys: '' @ message) ToastError st3)
      in ([body], st4\<lparr>isLoading := False\<rparr>))"

section \<open>Auxiliary notions for the statements\<close>

text \<open>A save has failed when its promise rejects or its result is not ok.\<close>

definition saveFailed :: "JsException + SaveResult \<Rightarrow> bool" where
  "saveFailed outcome = (case outcome of Inl _ \<Rightarrow> True | Inr result \<Rightarrow> \<not> sr_ok result)"

text \<open>Export followed by the import of the file just written.\<close>

definition exportThenImport ::
  "Env \<Rightarrow> string \<Rightarrow> (RequestBody \<Rightarrow> ApiOutcome) \<Rightarrow> (RequestBody \<Rightarrow> ApiOutcome) \<Rightarrow> ManagerState
     \<Rightarrow> RequestBody list \<times> ManagerState" where
  "exportThenImport env now callApi reload st =
     (let (exportData, st1) = handleExportHotkeys env now st
      in handleImportHotkeys env callApi reload st1 (readExportFile exportData))"

text \<open>
  A binding \<open>h\<close> is an overlay of the default \<open>d\<close> when it differs from it at most in key,
  active flag, mac and label, and its label is one the merge can reproduce (not empty, or
  the default's own).
\<close>

definition isOverlayOf :: "Hotkey \<Rightarrow> Hotkey \<Rightarrow> bool" where
  "isOverlayOf h d \<longleftrightarrow>
     hk_id h = hk_id d \<and> hk_section h = hk_section d \<and> hk_element h = hk_element d
     \<and> hk_subgroup h = hk_subgroup d \<and> hk_description h = hk_description d
     \<and> (hk_label h \<noteq> [] \<or> hk_label h = hk_label d)"

section \<open>Example data\<close>

text \<open>Two compiled-in bindings and a manager state holding them, used by the examples below.\<close>

definition undoDefault :: Hotkey where
  "undoDefault =
     \<lparr>hk_id = ''1'', hk_section = ''annotation'', hk_element = ''undo'', hk_label = ''Undo'',
      hk_key = ''ctrl+z'', hk_mac = None, hk_active = True, hk_subgroup = None,
      hk_description = None\<rparr>"

definition redoDefault :: Hotkey where
  "redoDefault =
     \<lparr>hk_id = ''2'', hk_section = ''annotation'', hk_element = ''redo'', hk_label = ''Redo'',
      hk_key = ''ctrl+y'', hk_mac = None, hk_active = False, hk_subgroup = None,
      hk_description = None\<rparr>"

definition exampleState :: ManagerState where
  "exampleState =
     \<lparr>hotkeys = [undoDefault, redoDefault], isLoading = False, editingHotkeyId = Some ''1'',
      globalEnabled = False, dirtyState = [], importDialogOpen = False,
      autoTranslatePlatforms = False, duplicateConfirmDialog = closedDialog, toasts = []\<rparr>"

definition undoOverride :: CustomSetting where
  "undoOverride = \<lparr>cs_key = ''ctrl+shift+z'', cs_active = True, cs_description = None\<rparr>"

definition undoOverrideEmptyDescription :: CustomSetting where
  "undoOverrideEmptyDescription =
     \<lparr>cs_key = ''ctrl+shift+z'', cs_active = True, cs_description = Some ''''\<rparr>"

text \<open>
  A lower-casing function for the examples, which press ASCII keys only: on ASCII strings
  it gives what \<^verbatim>\<open>String.prototype.toLowerCase\<close> gives. It stands for the runtime's function
  in the examples and nowhere else.
\<close>

definition asciiLowerChar :: "char \<Rightarrow> char" where
  "asciiLowerChar c =
     (let code = (of_char c :: nat)
      in if 65 \<le> code \<and> code \<le> 90 then char_of (code + 32) else c)"

definition asciiLowerCase :: "string \<Rightarrow> string" where
  "asciiLowerCase s = map asciiLowerChar s"

definition recording :: ItemState where
  "recording = \<lparr>editedKey = [], keyRecordingMode = True, item_error = []\<rparr>"

definition shiftDown :: KeyboardEvent where
  "shiftDown =
     \<lparr>ev_key = ''Shift'', ctrlKey = False, shiftKey = True, altKey = False, metaKey = False\<rparr>"

definition shiftA :: KeyboardEvent where
  "shiftA = \<lparr>ev_key = ''A'', ctrlKey = False, shiftKey = True, altKey = False, metaKey = False\<rparr>"

definition plainB :: KeyboardEvent where
  "plainB = \<lparr>ev_key = ''b'', ctrlKey = False, shiftKey = False, altKey = False, metaKey = False\<rparr>"

definition selectAllDefault :: Hotkey where
  "selectAllDefault =
     \<lparr>hk_id = ''3'', hk_section = ''regions'', hk_element = ''select-all'',
      hk_label = ''Select all regions'', hk_key = ''ctrl+a'', hk_mac = None, hk_active = True,
      hk_subgroup = None, hk_description = None\<rparr>"

text \<open>A second binding under \<open>annotation:undo\<close>, as an imported file can contain.\<close>

definition undoTwin :: Hotkey where
  "undoTwin = undoDefault\<lparr>hk_id := ''4'', hk_key := ''u'', hk_active := False\<rparr>"

text \<open>
  The page's surroundings in the examples: the two annotation bindings as compiled-in
  defaults, no cached overrides, a toast object, and no global named \<^verbatim>\<open>isReset\<close>.
\<close>

definition exampleEnv :: Env where
  "exampleEnv =
     \<lparr>DEFAULT_HOTKEYS = [undoDefault, redoDefault],
      HOTKEY_SECTIONS =
        [\<lparr>sec_id = ''annotation'', sec_title = ''Annotation'', sec_description = None\<rparr>],
      app_customHotkeys = None, app_autoTranslatePlatforms = None, toast_available = True,
      global_isReset = None\<rparr>"

text \<open>The state after the user changed the key of the first binding and not yet saved.\<close>

definition editedState :: ManagerState where
  "editedState = updateHotkeyKey (exampleState\<lparr>editingHotkeyId := Some ''1''\<rparr>) ''1'' ''ctrl+u''"

text \<open>The component's initial state, before the first load has finished.\<close>

definition initialState :: ManagerState where
  "initialState =
     \<lparr>hotkeys = [], isLoading = True, editingHotkeyId = None, globalEnabled = True,
      dirtyState = [], importDialogOpen = False, autoTranslatePlatforms = True,
      duplicateConfirmDialog = closedDialog, toasts = []\<rparr>"

definition twoSectionState :: ManagerState where
  "twoSectionState = exampleState\<lparr>hotkeys := [undoDefault, selectAllDefault]\<rparr>"

definition twinState :: ManagerState where
  "twinState = exampleState\<lparr>hotkeys := [undoDefault, undoTwin]\<rparr>"

text \<open>
  Servers for the examples: one that accepts every save, one that answers every save with
  an error field, one whose save request fails with HTTP status 401, and a reload that
  returns the override map and settings of the request saved before.
\<close>

definition acceptingApi :: "RequestBody \<Rightarrow> ApiOutcome" where
  "acceptingApi body =
     Resolved (Some \<lparr>ar_custom_hotkeys = None, ar_hotkey_settings = None, ar_error = None\<rparr>)"

definition refusingApi :: "RequestBody \<Rightarrow> ApiOutcome" where
  "refusingApi body =
     Resolved (Some \<lparr>ar_custom_hotkeys = None, ar_hotkey_settings = None,
                     ar_error = Some ''Invalid hotkey''\<rparr>)"

definition unauthorizedApi :: "RequestBody \<Rightarrow> ApiOutcome" where
  "unauthorizedApi body =
     Rejected (ThrownObject (Some (Some \<lparr>er_status = Some 401, er_data_error = None\<rparr>)) True)"

definition echoReload :: "RequestBody \<Rightarrow> ApiOutcome" where
  "echoReload body =
     Resolved (Some \<lparr>ar_custom_hotkeys = Some (rb_custom_hotkeys body),
                     ar_hotkey_settings = Some (rb_hotkey_settings body), ar_error = None\<rparr>)"

section \<open>The merge of defaults and overrides\<close>

lemma length_updateHotkeysWithCustomSettings:
  "length (updateHotkeysWithCustomSettings defaultHotkeys customHotkeys) = length defaultHotkeys"
  by (simp add: updateHotkeysWithCustomSettings_def)

text \<open>
  Claim C1 as written says that the label is replaced by the override's description
  whenever that field is present. The guard in the code is the truthiness of the
  description: an override whose description is the empty string leaves the default label
  in place. Here the override for \<open>annotation:undo\<close> has the description \<open>''''\<close>, and the
  merged binding keeps the label \<open>Undo\<close>.
\<close>

theorem merge_empty_description_keeps_label:
  "cs_description undoOverrideEmptyDescription = Some ''''
   \<and> map hk_label
        (updateHotkeysWithCustomSettings [undoDefault]
           [''annotation:undo'' \<mapsto> undoOverrideEmptyDescription]) = [''Undo'']"
  by (simp add: updateHotkeysWithCustomSettings_def undoDefault_def
        undoOverrideEmptyDescription_def lookupKey_def truthy_def)

text \<open>
  Claim C1, amended: the merge keeps the length and order of the default list; a binding
  whose \<open>section:element\<close> key is in the override map takes its \<open>key\<close> and \<open>active\<close> from
  that entry, and its label from the entry's description when the description is present
  and not empty (otherwise it keeps the default label); every other field is the
  default's. A binding whose key is not in the override map is returned unchanged.
\<close>

theorem merge_override_wins_per_binding:
  assumes "i < length defaultHotkeys"
  shows "length (updateHotkeysWithCustomSettings defaultHotkeys customHotkeys) =
           length defaultHotkeys
    \<and> updateHotkeysWithCustomSettings defaultHotkeys customHotkeys ! i =
       (case customHotkeys (lookupKey (defaultHotkeys ! i)) of
          None \<Rightarrow> defaultHotkeys ! i
        | Some override \<Rightarrow>
            (defaultHotkeys ! i)
              \<lparr>hk_key := cs_key override, hk_active := cs_active override,
               hk_label :=
                 (case cs_description override of
                    None \<Rightarrow> hk_label (defaultHotkeys ! i)
                  | Some d \<Rightarrow> if d = [] then hk_label (defaultHotkeys ! i) else d)\<rparr>)"
  using assms
  by (simp add: updateHotkeysWithCustomSettings_def truthy_def Let_def split: option.splits)

theorem merge_override_wins_per_binding_witness:
  "updateHotkeysWithCustomSettings [undoDefault, redoDefault]
       [''annotation:undo'' \<mapsto> undoOverride] ! 0 =
     undoDefault\<lparr>hk_key := ''ctrl+shift+z'', hk_active := True\<rparr>
   \<and> updateHotkeysWithCustomSettings [undoDefault, redoDefault]
       [''annotation:undo'' \<mapsto> undoOverride] ! 1 = redoDefault"
  using merge_override_wins_per_binding
          [of 0 "[undoDefault, redoDefault]" "[''annotation:undo'' \<mapsto> undoOverride]"]
        merge_override_wins_per_binding
          [of 1 "[undoDefault, redoDefault]" "[''annotation:undo'' \<mapsto> undoOverride]"]
  by (simp add: undoDefault_def redoDefault_def undoOverride_def lookupKey_def)

section \<open>Conflict detection\<close>

lemma conflicts_iff:
  "getGlobalDuplicates hs hotkeyId newKey \<noteq> [] \<longleftrightarrow>
     (\<exists>h \<in> set hs. hk_id h \<noteq> hotkeyId \<and> hk_key h = newKey)"
  by (auto simp: getGlobalDuplicates_def filter_empty_conv)

text \<open>
  Claim C4 as written says that an inactive binding is never reported as a duplicate. The
  filter of the conflict detector does not read the \<open>active\<close> flag: the inactive binding
  \<open>redoDefault\<close> is reported when its key is proposed for the other binding.
\<close>

theorem inactive_binding_reported_as_duplicate:
  "\<not> hk_active redoDefault
   \<and> getGlobalDuplicates [undoDefault, redoDefault] ''1'' ''ctrl+y'' = [redoDefault]"
  by (simp add: getGlobalDuplicates_def undoDefault_def redoDefault_def)

text \<open>
  Claim C4, amended: conflict detection reports exactly the loaded bindings that have a
  different id and the same key string as the proposed one, whatever their \<open>active\<close> flag;
  an inactive binding that shares the key string is reported like an active one.
\<close>

theorem duplicates_are_other_bindings_with_same_key:
  "h \<in> set (getGlobalDuplicates hs hotkeyId newKey) \<longleftrightarrow>
     h \<in> set hs \<and> hk_id h \<noteq> hotkeyId \<and> hk_key h = newKey"
  by (auto simp: getGlobalDuplicates_def)

section \<open>Applying a new key\<close>

lemma map_unchanged_when_absent:
  "find (\<lambda>h. hk_id h = hotkeyId) hs = None \<Longrightarrow>
     map (\<lambda>h. if hk_id h = hotkeyId then f h else h) hs = hs"
  by (induction hs) (auto split: if_splits)

lemma hotkeys_updateHotkeyKey:
  "hotkeys (updateHotkeyKey st hotkeyId newKey) =
     map (\<lambda>h. if hk_id h = hotkeyId then h\<lparr>hk_key := newKey, hk_mac := Some newKey\<rparr> else h)
       (hotkeys st)"
  by (simp add: updateHotkeyKey_def map_unchanged_when_absent split: option.splits)

lemma dialog_updateHotkeyKey:
  "duplicateConfirmDialog (updateHotkeyKey st hotkeyId newKey) = duplicateConfirmDialog st"
  by (simp add: updateHotkeyKey_def split: option.splits)

text \<open>
  Claim C10: the key update keeps the length and order of the list. At every position,
  a binding with the target id gets \<open>key\<close> and \<open>mac\<close> set to the new key string and keeps
  id, section, element, label, active, subgroup and description; a binding with another id
  is unchanged. (For an id that no binding has, the list is unchanged, which the statement
  covers as well.)
\<close>

theorem updateHotkeyKey_frame:
  assumes "n < length (hotkeys st)"
  shows "length (hotkeys (updateHotkeyKey st hotkeyId newKey)) = length (hotkeys st)
    \<and> (let h = hotkeys st ! n; r = hotkeys (updateHotkeyKey st hotkeyId newKey) ! n
        in if hk_id h = hotkeyId
           then r = h\<lparr>hk_key := newKey, hk_mac := Some newKey\<rparr>
              \<and> hk_key r = newKey \<and> hk_mac r = Some newKey
              \<and> hk_id r = hk_id h \<and> hk_section r = hk_section h \<and> hk_element r = hk_element h
              \<and> hk_label r = hk_label h \<and> hk_active r = hk_active h
              \<and> hk_subgroup r = hk_subgroup h \<and> hk_description r = hk_description h
           else r = h)"
  using assms by (simp add: hotkeys_updateHotkeyKey Let_def)

theorem updateHotkeyKey_frame_witness:
  "hotkeys (updateHotkeyKey exampleState ''1'' ''ctrl+u'') ! 0 =
     undoDefault\<lparr>hk_key := ''ctrl+u'', hk_mac := Some ''ctrl+u''\<rparr>
   \<and> hotkeys (updateHotkeyKey exampleState ''1'' ''ctrl+u'') ! 1 = redoDefault
   \<and> length (hotkeys (updateHotkeyKey exampleState ''1'' ''ctrl+u'')) = 2"
  using updateHotkeyKey_frame [of 0 exampleState "''1''" "''ctrl+u''"]
        updateHotkeyKey_frame [of 1 exampleState "''1''" "''ctrl+u''"]
  by (simp add: exampleState_def undoDefault_def redoDefault_def Let_def)

section \<open>Saving an edited key: conflicts are deferred to the confirmation dialog\<close>

lemma handleSaveHotkey_absent:
  "find (\<lambda>h. hk_id h = hotkeyId) (hotkeys st) = None \<Longrightarrow>
     handleSaveHotkey st hotkeyId newKey = st"
  by (simp add: handleSaveHotkey_def)

lemma handleSaveHotkey_conflict:
  "find (\<lambda>h. hk_id h = hotkeyId) (hotkeys st) = Some hotkey \<Longrightarrow>
   getGlobalDuplicates (hotkeys st) hotkeyId newKey \<noteq> [] \<Longrightarrow>
     handleSaveHotkey st hotkeyId newKey =
       st\<lparr>duplicateConfirmDialog :=
            \<lparr>dlg_open = True, dlg_hotkeyId = Some hotkeyId, dlg_newKey = Some newKey,
             dlg_conflictingHotkeys = getGlobalDuplicates (hotkeys st) hotkeyId newKey\<rparr>\<rparr>"
  by (simp add: handleSaveHotkey_def)

lemma handleSaveHotkey_no_conflict:
  "getGlobalDuplicates (hotkeys st) hotkeyId newKey = [] \<Longrightarrow>
     handleSaveHotkey st hotkeyId newKey = updateHotkeyKey st hotkeyId newKey"
  by (simp add: handleSaveHotkey_def updateHotkeyKey_def split: option.splits)

text \<open>
  Claim C3: when some other loaded binding (one with a different id) has exactly the
  proposed key string, saving the edit changes neither the binding list nor the dirty
  map; for a loaded candidate the request is parked in the confirmation dialog with the
  conflicting bindings, cancelling the dialog leaves the list as it was, and confirming it
  applies the key (the dialog's guard asks for a non-empty id and key). When no other
  binding has the key string, the key is applied at once and no dialog is opened.
\<close>

theorem duplicate_key_deferred_until_confirmed:
  "((\<exists>h \<in> set (hotkeys st). hk_id h \<noteq> hotkeyId \<and> hk_key h = newKey) \<longrightarrow>
      hotkeys (handleSaveHotkey st hotkeyId newKey) = hotkeys st
      \<and> dirtyState (handleSaveHotkey st hotkeyId newKey) = dirtyState st
      \<and> hotkeys (handleCancelDuplicate (handleSaveHotkey st hotkeyId newKey)) = hotkeys st
      \<and> (hotkeyId \<in> hk_id ` set (hotkeys st) \<longrightarrow>
           duplicateConfirmDialog (handleSaveHotkey st hotkeyId newKey) =
             \<lparr>dlg_open = True, dlg_hotkeyId = Some hotkeyId, dlg_newKey = Some newKey,
              dlg_conflictingHotkeys = getGlobalDuplicates (hotkeys st) hotkeyId newKey\<rparr>
           \<and> (hotkeyId \<noteq> [] \<and> newKey \<noteq> [] \<longrightarrow>
                hotkeys (handleConfirmDuplicate (handleSaveHotkey st hotkeyId newKey)) =
                  map (\<lambda>h. if hk_id h = hotkeyId
                            then h\<lparr>hk_key := newKey, hk_mac := Some newKey\<rparr> else h)
                    (hotkeys st))))
   \<and> (\<not> (\<exists>h \<in> set (hotkeys st). hk_id h \<noteq> hotkeyId \<and> hk_key h = newKey) \<longrightarrow>
        hotkeys (handleSaveHotkey st hotkeyId newKey) =
          map (\<lambda>h. if hk_id h = hotkeyId
                    then h\<lparr>hk_key := newKey, hk_mac := Some newKey\<rparr> else h)
            (hotkeys st)
        \<and> duplicateConfirmDialog (handleSaveHotkey st hotkeyId newKey) =
            duplicateConfirmDialog st)"
  (is "(?conflict \<longrightarrow> ?deferred) \<and> (\<not> ?conflict \<longrightarrow> ?applied)")
proof (rule conjI)
  show "?conflict \<longrightarrow> ?deferred"
  proof
    assume ?conflict
    then have conflicts: "getGlobalDuplicates (hotkeys st) hotkeyId newKey \<noteq> []"
      by (simp only: conflicts_iff)
    show ?deferred
    proof (cases "find (\<lambda>h. hk_id h = hotkeyId) (hotkeys st)")
      case None
      then have "hotkeyId \<notin> hk_id ` set (hotkeys st)"
        by (auto simp: find_None_iff)
      then show ?thesis
        by (simp add: handleSaveHotkey_absent [OF None] handleCancelDuplicate_def)
    next
      case (Some hotkey)
      show ?thesis
        by (simp add: handleSaveHotkey_conflict [OF Some conflicts] handleCancelDuplicate_def
              handleConfirmDuplicate_def truthy_def hotkeys_updateHotkeyKey)
    qed
  qed
next
  show "\<not> ?conflict \<longrightarrow> ?applied"
  proof
    assume "\<not> ?conflict"
    then have none: "getGlobalDuplicates (hotkeys st) hotkeyId newKey = []"
      by (simp only: conflicts_iff [symmetric]) simp
    show ?applied
      by (simp add: handleSaveHotkey_no_conflict [OF none] dialog_updateHotkeyKey
            hotkeys_updateHotkeyKey)
  qed
qed

theorem duplicate_key_deferred_until_confirmed_witness:
  "hotkeys (handleSaveHotkey exampleState ''1'' ''ctrl+y'') = [undoDefault, redoDefault]
   \<and> dlg_conflictingHotkeys
       (duplicateConfirmDialog (handleSaveHotkey exampleState ''1'' ''ctrl+y'')) = [redoDefault]
   \<and> hotkeys (handleConfirmDuplicate (handleSaveHotkey exampleState ''1'' ''ctrl+y'')) =
       [undoDefault\<lparr>hk_key := ''ctrl+y'', hk_mac := Some ''ctrl+y''\<rparr>, redoDefault]
   \<and> hotkeys (handleSaveHotkey exampleState ''1'' ''ctrl+u'') =
       [undoDefault\<lparr>hk_key := ''ctrl+u'', hk_mac := Some ''ctrl+u''\<rparr>, redoDefault]"
  using duplicate_key_deferred_until_confirmed [of exampleState "''1''" "''ctrl+y''"]
        duplicate_key_deferred_until_confirmed [of exampleState "''1''" "''ctrl+u''"]
  by (simp add: exampleState_def undoDefault_def redoDefault_def getGlobalDuplicates_def)

section \<open>Key capture\<close>

lemma keyCombo_canonical:
  "join ''+'' (keyComboOf toLowerCase e) = canonicalKeyString toLowerCase e"
  by (simp add: keyComboOf_def canonicalKeyString_def)

lemma keydowns_not_recording:
  "\<not> keyRecordingMode st \<Longrightarrow> foldl (handleKeyPress toLowerCase) st es = st"
  by (induction es) (simp_all add: handleKeyPress_def)

lemma keydowns_modifiers:
  "\<forall>e \<in> set es. isModifierKey (ev_key e) \<Longrightarrow> foldl (handleKeyPress toLowerCase) st es = st"
  by (induction es) (simp_all add: handleKeyPress_def)

lemma canonicalKeyString_shiftA: "canonicalKeyString asciiLowerCase shiftA = ''shift+a''"
  by code_simp

text \<open>
  Claim C7: in a recording session, keydowns of the bare modifiers Control, Shift, Alt and
  Meta leave the item's state as it is (recording goes on), and the first keydown of
  another key ends the session with the canonical key string of that event: the held
  modifiers in the order ctrl, shift, alt, meta, then the key lower-cased by the runtime's
  \<^verbatim>\<open>toLowerCase\<close>, joined by \<open>+\<close>. Keydowns after it change nothing, so the session
  produces that one string. The statement holds for every lower-casing function, so for
  the runtime's on every key, ASCII or not.
\<close>

theorem key_capture_ends_on_first_non_modifier:
  assumes "keyRecordingMode st"
    and "\<forall>m \<in> set modifiers. isModifierKey (ev_key m)"
    and "\<not> isModifierKey (ev_key e)"
  shows "keydowns toLowerCase st modifiers = st
    \<and> keydowns toLowerCase st (modifiers @ e # later) =
        st\<lparr>editedKey := canonicalKeyString toLowerCase e, item_error := [],
           keyRecordingMode := False\<rparr>"
proof -
  have first: "foldl (handleKeyPress toLowerCase) st modifiers = st"
    using assms(2) by (rule keydowns_modifiers)
  have step: "handleKeyPress toLowerCase st e =
      st\<lparr>editedKey := canonicalKeyString toLowerCase e, item_error := [],
         keyRecordingMode := False\<rparr>"
    using assms(1,3) by (simp add: handleKeyPress_def keyCombo_canonical)
  have rest: "foldl (handleKeyPress toLowerCase) (handleKeyPress toLowerCase st e) later =
      handleKeyPress toLowerCase st e"
    by (rule keydowns_not_recording) (simp add: step)
  have "foldl (handleKeyPress toLowerCase) st (modifiers @ e # later) =
      foldl (handleKeyPress toLowerCase)
        (handleKeyPress toLowerCase (foldl (handleKeyPress toLowerCase) st modifiers) e) later"
    by simp
  also have "\<dots> = handleKeyPress toLowerCase st e"
    by (simp only: first rest)
  finally show ?thesis
    by (simp add: keydowns_def first step)
qed

theorem key_capture_ends_on_first_non_modifier_witness:
  "keydowns asciiLowerCase recording [shiftDown] = recording
   \<and> keydowns asciiLowerCase recording ([shiftDown] @ shiftA # [plainB]) =
       \<lparr>editedKey = ''shift+a'', keyRecordingMode = False, item_error = []\<rparr>"
proof -
  have "keyRecordingMode recording"
    by (simp add: recording_def)
  moreover have "\<forall>m \<in> set [shiftDown]. isModifierKey (ev_key m)"
    by (simp add: shiftDown_def isModifierKey_def)
  moreover have "\<not> isModifierKey (ev_key shiftA)"
    by (simp add: shiftA_def isModifierKey_def)
  ultimately show ?thesis
    using key_capture_ends_on_first_non_modifier
            [where st = recording and modifiers = "[shiftDown]" and e = shiftA
               and later = "[plainB]" and toLowerCase = asciiLowerCase]
    by (simp add: canonicalKeyString_shiftA recording_def)
qed

section \<open>What a save sends\<close>

lemma customHotkeysOf_snoc:
  "customHotkeysOf (hs @ [h]) = (customHotkeysOf hs)(lookupKey h \<mapsto> customSettingOf h)"
  by (simp add: customHotkeysOf_def)

lemma customHotkeysOf_last_wins:
  "customHotkeysOf hs k = map_option customSettingOf (find (\<lambda>h. lookupKey h = k) (rev hs))"
proof (induction hs rule: rev_induct)
  case Nil
  show ?case by (simp add: customHotkeysOf_def)
next
  case (snoc h hs)
  then show ?case by (simp add: customHotkeysOf_snoc)
qed

lemma dom_customHotkeysOf: "dom (customHotkeysOf hs) = lookupKey ` set hs"
  by (auto simp: dom_def customHotkeysOf_last_wins find_None_iff)

lemma find_distinct_key:
  "distinct (map f xs) \<Longrightarrow> x \<in> set xs \<Longrightarrow> find (\<lambda>y. f y = f x) xs = Some x"
  by (induction xs) (auto simp: image_iff)

lemma customHotkeysOf_distinct:
  assumes "distinct (map lookupKey hs)" and "h \<in> set hs"
  shows "customHotkeysOf hs (lookupKey h) = Some (customSettingOf h)"
proof -
  have "distinct (map lookupKey (rev hs))"
    using assms(1) by (simp add: rev_map [symmetric])
  moreover have "h \<in> set (rev hs)"
    using assms(2) by simp
  ultimately have "find (\<lambda>y. lookupKey y = lookupKey h) (rev hs) = Some h"
    by (rule find_distinct_key)
  then show ?thesis
    by (simp add: customHotkeysOf_last_wins)
qed

lemma fst_saveHotkeysToAPI:
  "fst (saveHotkeysToAPI env callApi hs settings) = requestBody hs settings"
  by (simp add: saveHotkeysToAPI_def Let_def)

lemma fst_handleSaveSection:
  "fst (handleSaveSection env callApi st sectionId) =
     [requestBody (hotkeys st) \<lparr>hs_autoTranslatePlatforms = autoTranslatePlatforms st\<rparr>]"
  by (simp add: handleSaveSection_def saveHotkeysToAPI_def Let_def split: prod.splits)

text \<open>
  Claim C2 as written promises one entry per binding, carrying that binding's key and
  active flag, for every binding list. The override object is keyed by \<open>section:element\<close>,
  so of two bindings with the same section and element only the later one is sent: in
  \<open>twinState\<close> the first binding has the key \<open>ctrl+z\<close>, and the only entry of the request,
  under \<open>annotation:undo\<close>, carries the key \<open>u\<close> of the second.
\<close>

theorem save_keeps_last_of_equal_lookup_keys:
  "hotkeys twinState = [undoDefault, undoTwin]
   \<and> hk_key undoDefault = ''ctrl+z''
   \<and> lookupKey undoDefault = ''annotation:undo''
   \<and> map_option cs_key
        (rb_custom_hotkeys
           (hd (fst (handleSaveSection exampleEnv acceptingApi twinState ''annotation'')))
           ''annotation:undo'') = Some ''u''
   \<and> dom (rb_custom_hotkeys
           (hd (fst (handleSaveSection exampleEnv acceptingApi twinState ''annotation'')))) =
       {''annotation:undo''}"
  by (simp add: fst_handleSaveSection requestBody_def dom_customHotkeysOf
        customHotkeysOf_last_wins twinState_def exampleState_def undoTwin_def undoDefault_def
        lookupKey_def customSettingOf_def)

text \<open>
  Claim C2, amended: every save, whichever section triggers it, sends one request whose
  body is built from the whole current binding list and does not depend on the section
  id. The keys of its override map are the \<open>section:element\<close> keys of all bindings of the
  list; the entry under a key carries key, active flag and label of the last binding in
  the list with that key. So when the \<open>section:element\<close> keys of the list are pairwise
  distinct, every binding has its own entry with its own key and active flag.
\<close>

theorem save_section_sends_whole_list:
  fixes env :: Env and st :: ManagerState
  defines "body \<equiv>
    requestBody (hotkeys st) \<lparr>hs_autoTranslatePlatforms = autoTranslatePlatforms st\<rparr>"
  shows "fst (handleSaveSection env callApi st sectionId) = [body]
    \<and> dom (rb_custom_hotkeys body) = lookupKey ` set (hotkeys st)
    \<and> rb_custom_hotkeys body k =
        map_option customSettingOf (find (\<lambda>h. lookupKey h = k) (rev (hotkeys st)))
    \<and> (distinct (map lookupKey (hotkeys st)) \<longrightarrow>
         (\<forall>h \<in> set (hotkeys st).
            rb_custom_hotkeys body (lookupKey h) =
              Some \<lparr>cs_key = hk_key h, cs_active = hk_active h,
                    cs_description = Some (hk_label h)\<rparr>))"
  unfolding body_def
  using customHotkeysOf_distinct [of "hotkeys st"]
  by (simp add: fst_handleSaveSection requestBody_def dom_customHotkeysOf
        customHotkeysOf_last_wins [symmetric] customSettingOf_def)

theorem save_section_sends_whole_list_witness:
  "rb_custom_hotkeys
     (hd (fst (handleSaveSection exampleEnv acceptingApi twoSectionState ''annotation'')))
     ''regions:select-all'' =
     Some \<lparr>cs_key = ''ctrl+a'', cs_active = True, cs_description = Some ''Select all regions''\<rparr>
   \<and> rb_custom_hotkeys
     (hd (fst (handleSaveSection exampleEnv acceptingApi twoSectionState ''annotation'')))
     ''annotation:undo'' =
     Some \<lparr>cs_key = ''ctrl+z'', cs_active = True, cs_description = Some ''Undo''\<rparr>"
proof -
  have keys: "distinct (map lookupKey (hotkeys twoSectionState))"
    by (simp add: twoSectionState_def exampleState_def undoDefault_def selectAllDefault_def
          lookupKey_def)
  have members: "hotkeys twoSectionState = [undoDefault, selectAllDefault]"
    by (simp add: twoSectionState_def exampleState_def)
  have names: "lookupKey selectAllDefault = ''regions:select-all''"
    "lookupKey undoDefault = ''annotation:undo''"
    by (simp_all add: selectAllDefault_def undoDefault_def lookupKey_def)
  show ?thesis
    using save_section_sends_whole_list
            [where env = exampleEnv and callApi = acceptingApi and st = twoSectionState
               and sectionId = "''annotation''" and k = "''regions:select-all''"]
          keys
    by (simp add: members names)
       (simp add: selectAllDefault_def undoDefault_def customSettingOf_def)
qed

section \<open>Reset\<close>

lemma hotkeys_showToast [simp]: "hotkeys (showToast env message type st) = hotkeys st"
  by (simp add: showToast_def)

lemma autoTranslatePlatforms_showToast [simp]:
  "autoTranslatePlatforms (showToast env message type st) = autoTranslatePlatforms st"
  by (simp add: showToast_def)

lemma dirtyState_showToast [simp]: "dirtyState (showToast env message type st) = dirtyState st"
  by (simp add: showToast_def)

lemma handleResetToDefaults_local:
  assumes "confirm (resetConfirmMessage st)"
  shows "hotkeys (snd (handleResetToDefaults env confirm callApi st)) = DEFAULT_HOTKEYS env
     \<and> autoTranslatePlatforms (snd (handleResetToDefaults env confirm callApi st)) = True
     \<and> dirtyState (snd (handleResetToDefaults env confirm callApi st)) = []"
  using assms
  by (auto simp: handleResetToDefaults_def Let_def
        split: prod.splits sum.splits JsException.splits)

lemma handleResetToDefaults_request:
  assumes "confirm (resetConfirmMessage st)"
  shows "fst (handleResetToDefaults env confirm callApi st) =
           [\<lparr>rb_custom_hotkeys = Map.empty,
             rb_hotkey_settings = \<lparr>hs_autoTranslatePlatforms = True\<rparr>\<rparr>]"
  using assms
  by (simp add: handleResetToDefaults_def saveHotkeysToAPI_def requestBody_def
        customHotkeysOf_def Let_def split: prod.splits)

text \<open>
  Claim C5: once the user has confirmed the dialog, the reset sends exactly one request,
  with an empty override map and \<open>autoTranslatePlatforms = true\<close>, and sets the local
  binding list to the compiled-in defaults, the local setting to true and the dirty map
  to empty, whatever the state was before and whatever the server answers.
\<close>

theorem reset_yields_defaults:
  assumes "confirm (resetConfirmMessage st)"
  shows "fst (handleResetToDefaults env confirm callApi st) =
           [\<lparr>rb_custom_hotkeys = Map.empty,
             rb_hotkey_settings = \<lparr>hs_autoTranslatePlatforms = True\<rparr>\<rparr>]
     \<and> hotkeys (snd (handleResetToDefaults env confirm callApi st)) = DEFAULT_HOTKEYS env
     \<and> autoTranslatePlatforms (snd (handleResetToDefaults env confirm callApi st)) = True
     \<and> dirtyState (snd (handleResetToDefaults env confirm callApi st)) = []"
  using assms by (simp add: handleResetToDefaults_request handleResetToDefaults_local)

theorem reset_yields_defaults_witness:
  "\<not> autoTranslatePlatforms editedState
   \<and> map rb_hotkey_settings
       (fst (handleResetToDefaults exampleEnv (\<lambda>message. True) acceptingApi editedState)) =
       [\<lparr>hs_autoTranslatePlatforms = True\<rparr>]
   \<and> map (\<lambda>body. rb_custom_hotkeys body ''annotation:undo'')
       (fst (handleResetToDefaults exampleEnv (\<lambda>message. True) acceptingApi editedState)) =
       [None]
   \<and> hotkeys (snd (handleResetToDefaults exampleEnv (\<lambda>message. True) acceptingApi editedState)) =
       [undoDefault, redoDefault]"
  using reset_yields_defaults [of "\<lambda>message. True" editedState exampleEnv acceptingApi]
  by (simp add: exampleEnv_def editedState_def exampleState_def updateHotkeyKey_def
        undoDefault_def redoDefault_def)

section \<open>Failed saves and failed resets\<close>

lemma handleSaveSection_failed:
  assumes "saveFailed (snd (saveHotkeysToAPI env callApi (hotkeys st)
              \<lparr>hs_autoTranslatePlatforms = autoTranslatePlatforms st\<rparr>))"
  shows "hotkeys (snd (handleSaveSection env callApi st sectionId)) = hotkeys st
    \<and> autoTranslatePlatforms (snd (handleSaveSection env callApi st sectionId)) =
        autoTranslatePlatforms st
    \<and> dirtyState (snd (handleSaveSection env callApi st sectionId)) = dirtyState st"
  using assms
  by (auto simp: handleSaveSection_def saveFailed_def Let_def
        split: prod.splits sum.splits JsException.splits)

lemma handleResetToDefaults_declined:
  "\<not> confirm (resetConfirmMessage st) \<Longrightarrow>
     handleResetToDefaults env confirm callApi st = ([], st)"
  by (simp add: handleResetToDefaults_def)

lemma refusingApi_fails:
  "saveFailed (snd (saveHotkeysToAPI env refusingApi hs settings))"
  by (simp add: saveFailed_def saveHotkeysToAPI_def refusingApi_def truthy_def)

lemma acceptingApi_succeeds:
  "\<not> saveFailed (snd (saveHotkeysToAPI env acceptingApi hs settings))"
  by (simp add: saveFailed_def saveHotkeysToAPI_def acceptingApi_def)

lemma hotkeys_editedState:
  "hotkeys editedState =
     [undoDefault\<lparr>hk_key := ''ctrl+u'', hk_mac := Some ''ctrl+u''\<rparr>, redoDefault]"
  by (simp add: editedState_def hotkeys_updateHotkeyKey exampleState_def undoDefault_def
        redoDefault_def)

lemma dirtyState_editedState: "dirtyState editedState = [(''annotation'', True)]"
  by (simp add: editedState_def updateHotkeyKey_def exampleState_def undoDefault_def)

text \<open>
  Claim C8 as written says that a failed reset leaves the local state as it was. The
  reset handler sets the local state to the defaults before it sends the request and has
  no step that restores the old state. Here the server answers the reset with an error
  field, so the save result is a failure, and the edited binding list and the dirty map
  have nevertheless been replaced by the defaults and the empty map.
\<close>

theorem failed_reset_has_reset_local_state:
  "saveFailed (snd (saveHotkeysToAPI exampleEnv refusingApi []
       \<lparr>hs_autoTranslatePlatforms = autoTranslatePlatforms editedState\<rparr>))
   \<and> hotkeys editedState =
       [undoDefault\<lparr>hk_key := ''ctrl+u'', hk_mac := Some ''ctrl+u''\<rparr>, redoDefault]
   \<and> hotkeys (snd (handleResetToDefaults exampleEnv (\<lambda>message. True) refusingApi editedState)) =
       [undoDefault, redoDefault]
   \<and> dirtyState editedState = [(''annotation'', True)]
   \<and> dirtyState (snd (handleResetToDefaults exampleEnv (\<lambda>message. True) refusingApi editedState))
       = []"
  by (simp add: refusingApi_fails hotkeys_editedState dirtyState_editedState
        handleResetToDefaults_local exampleEnv_def)

text \<open>
  Claim C8, amended: a save that fails (its request rejects, or the answer carries an
  error) leaves the binding list, the settings value and the dirty map as they were. A
  reset, once confirmed, has already set the local state to the defaults when its request
  fails and does not roll back: after a failed reset the binding list is the compiled-in
  default list, the setting is true and the dirty map is empty. A reset the user declines
  sends nothing and changes nothing. (What the server has stored is not decided by this
  code; it sends a single request per operation.)
\<close>

theorem failed_save_keeps_state_failed_reset_does_not:
  "(saveFailed (snd (saveHotkeysToAPI env callApi (hotkeys st)
        \<lparr>hs_autoTranslatePlatforms = autoTranslatePlatforms st\<rparr>)) \<longrightarrow>
      hotkeys (snd (handleSaveSection env callApi st sectionId)) = hotkeys st
      \<and> autoTranslatePlatforms (snd (handleSaveSection env callApi st sectionId)) =
          autoTranslatePlatforms st
      \<and> dirtyState (snd (handleSaveSection env callApi st sectionId)) = dirtyState st)
   \<and> (confirm (resetConfirmMessage st)
       \<and> saveFailed (snd (saveHotkeysToAPI env callApi []
            \<lparr>hs_autoTranslatePlatforms = autoTranslatePlatforms st\<rparr>)) \<longrightarrow>
      hotkeys (snd (handleResetToDefaults env confirm callApi st)) = DEFAULT_HOTKEYS env
      \<and> autoTranslatePlatforms (snd (handleResetToDefaults env confirm callApi st)) = True
      \<and> dirtyState (snd (handleResetToDefaults env confirm callApi st)) = [])
   \<and> (\<not> confirm (resetConfirmMessage st) \<longrightarrow>
      handleResetToDefaults env confirm callApi st = ([], st))"
  using handleSaveSection_failed [of env callApi st sectionId]
        handleResetToDefaults_local [of confirm st env callApi]
        handleResetToDefaults_declined [of confirm st env callApi]
  by blast

theorem failed_save_keeps_state_failed_reset_does_not_witness:
  "hotkeys (snd (handleSaveSection exampleEnv refusingApi editedState ''annotation'')) =
     [undoDefault\<lparr>hk_key := ''ctrl+u'', hk_mac := Some ''ctrl+u''\<rparr>, redoDefault]
   \<and> dirtyState (snd (handleSaveSection exampleEnv refusingApi editedState ''annotation'')) =
     [(''annotation'', True)]
   \<and> hotkeys (snd (handleResetToDefaults exampleEnv (\<lambda>message. True) refusingApi editedState)) =
     [undoDefault, redoDefault]
   \<and> handleResetToDefaults exampleEnv (\<lambda>message. False) refusingApi editedState =
     ([], editedState)"
  using failed_save_keeps_state_failed_reset_does_not
          [of exampleEnv refusingApi editedState "''annotation''" "\<lambda>message. True"]
        failed_save_keeps_state_failed_reset_does_not
          [of exampleEnv refusingApi editedState "''annotation''" "\<lambda>message. False"]
  by (simp add: refusingApi_fails hotkeys_editedState dirtyState_editedState exampleEnv_def)

section \<open>The save function's results\<close>

lemma saveHotkeysToAPI_api_error:
  "callApi (requestBody hs settings) = Resolved (Some r) \<Longrightarrow> ar_error r = Some e \<Longrightarrow> e \<noteq> [] \<Longrightarrow>
     snd (saveHotkeysToAPI env callApi hs settings) =
       Inr \<lparr>sr_ok = False, sr_error = Some e, sr_data = Some r\<rparr>"
  by (simp add: saveHotkeysToAPI_def truthy_def)

lemma saveHotkeysToAPI_rejected_isReset_unbound:
  "global_isReset env = None \<Longrightarrow> callApi (requestBody hs settings) = Rejected error \<Longrightarrow>
     snd (saveHotkeysToAPI env callApi hs settings) =
       Inl (ReferenceError ''isReset is not defined'')"
  by (simp add: saveHotkeysToAPI_def)

lemma saveHotkeysToAPI_rejected_isReset_bound:
  "global_isReset env = Some isReset \<Longrightarrow> callApi (requestBody hs settings) = Rejected error \<Longrightarrow>
     snd (saveHotkeysToAPI env callApi hs settings) =
       Inr \<lparr>sr_ok = False, sr_error = Some (catchMessage isReset error), sr_data = None\<rparr>"
  by (simp add: saveHotkeysToAPI_def)

text \<open>
  The messages the catch block would give for a save if \<^verbatim>\<open>isReset\<close> were bound to false:
  the mapping from the status that the code sets out to compute.
\<close>

lemma catchMessage_by_status:
  "catchMessage False (ThrownObject (Some (Some \<lparr>er_status = Some 401, er_data_error = e\<rparr>)) q) =
     ''Authentication required''"
  "n \<ge> 500 \<Longrightarrow>
   catchMessage False (ThrownObject (Some (Some \<lparr>er_status = Some n, er_data_error = e\<rparr>)) q) =
     ''Server error - please try again later''"
  "catchMessage False
     (ThrownObject (Some (Some \<lparr>er_status = Some 400, er_data_error = None\<rparr>)) q) =
     ''Invalid hotkeys configuration''"
  "catchMessage False (ThrownObject (Some (Some \<lparr>er_status = Some 404, er_data_error = e\<rparr>)) q) =
     ''Failed to save hotkeys''"
  "catchMessage False (ThrownObject None True) = ''Network error - please check your connection''"
  "catchMessage False ThrownValue = ''Failed to save hotkeys''"
  by (simp_all add: catchMessage_def orElse_def)

text \<open>
  Claim C9 at a failing input: the save request is rejected with an error object whose
  response has status 401, on a page where no global \<^verbatim>\<open>isReset\<close> exists (the sources
  declare none). The claim expects a failure result with the message for a missing
  authentication. The catch block reads the undeclared \<^verbatim>\<open>isReset\<close> before it looks at the
  status, so the promise of the save function rejects with a ReferenceError and no result
  is returned.
\<close>

theorem rejected_save_raises_reference_error:
  "global_isReset exampleEnv = None
   \<and> unauthorizedApi (requestBody [undoDefault] \<lparr>hs_autoTranslatePlatforms = True\<rparr>) =
       Rejected (ThrownObject (Some (Some \<lparr>er_status = Some 401, er_data_error = None\<rparr>)) True)
   \<and> snd (saveHotkeysToAPI exampleEnv unauthorizedApi [undoDefault]
            \<lparr>hs_autoTranslatePlatforms = True\<rparr>) =
       Inl (ReferenceError ''isReset is not defined'')"
  by (simp add: saveHotkeysToAPI_def unauthorizedApi_def exampleEnv_def)

section \<open>Export followed by import\<close>

lemma hotkeys_loadHotkeysFromAPI:
  "hotkeys (loadHotkeysFromAPI env response st) =
     updateHotkeysWithCustomSettings (DEFAULT_HOTKEYS env)
       (case response of
          Resolved (Some r) \<Rightarrow>
            (case ar_custom_hotkeys r of
               Some c \<Rightarrow> c
             | None \<Rightarrow> (case app_customHotkeys env of Some c \<Rightarrow> c | None \<Rightarrow> Map.empty))
        | _ \<Rightarrow> (case app_customHotkeys env of Some c \<Rightarrow> c | None \<Rightarrow> Map.empty))"
  by (simp add: loadHotkeysFromAPI_def Let_def split: ApiOutcome.splits option.splits)

lemma merge_keeps_identity_fields:
  "map hk_id (updateHotkeysWithCustomSettings ds m) = map hk_id ds"
  "map hk_section (updateHotkeysWithCustomSettings ds m) = map hk_section ds"
  "map hk_element (updateHotkeysWithCustomSettings ds m) = map hk_element ds"
  "map hk_mac (updateHotkeysWithCustomSettings ds m) = map hk_mac ds"
  by (simp_all add: updateHotkeysWithCustomSettings_def Let_def split: option.splits)

lemma hotkeys_exportThenImport:
  "hotkeys (snd (exportThenImport env now callApi reload st)) =
     (if saveFailed (snd (saveHotkeysToAPI env callApi (hotkeys st)
            \<lparr>hs_autoTranslatePlatforms = autoTranslatePlatforms st\<rparr>))
      then hotkeys st
      else hotkeys (loadHotkeysFromAPI env
             (reload (requestBody (hotkeys st)
                \<lparr>hs_autoTranslatePlatforms = autoTranslatePlatforms st\<rparr>)) st))"
proof -
  obtain body outcome where save:
    "saveHotkeysToAPI env callApi (hotkeys st)
       \<lparr>hs_autoTranslatePlatforms = autoTranslatePlatforms st\<rparr> = (body, outcome)"
    by (cases "saveHotkeysToAPI env callApi (hotkeys st)
       \<lparr>hs_autoTranslatePlatforms = autoTranslatePlatforms st\<rparr>")
  have body: "body = requestBody (hotkeys st)
      \<lparr>hs_autoTranslatePlatforms = autoTranslatePlatforms st\<rparr>"
    using fst_saveHotkeysToAPI [of env callApi "hotkeys st"
      "\<lparr>hs_autoTranslatePlatforms = autoTranslatePlatforms st\<rparr>"] save by simp
  show ?thesis
    by (simp add: exportThenImport_def handleExportHotkeys_def readExportFile_def
          handleImportHotkeys_def Let_def save saveFailed_def hotkeys_loadHotkeysFromAPI
          showToast_def body [symmetric]
          split: sum.splits JsException.splits)
qed

lemma merge_of_overlay:
  assumes overlay: "list_all2 isOverlayOf hs ds"
    and keys: "distinct (map lookupKey ds)"
  shows "updateHotkeysWithCustomSettings ds (customHotkeysOf hs) =
           map2 (\<lambda>h d. h\<lparr>hk_mac := hk_mac d\<rparr>) hs ds"
proof (rule nth_equalityI)
  have len: "length hs = length ds"
    using overlay by (rule list_all2_lengthD)
  show "length (updateHotkeysWithCustomSettings ds (customHotkeysOf hs)) =
      length (map2 (\<lambda>h d. h\<lparr>hk_mac := hk_mac d\<rparr>) hs ds)"
    by (simp add: updateHotkeysWithCustomSettings_def len)
  fix i
  assume "i < length (updateHotkeysWithCustomSettings ds (customHotkeysOf hs))"
  then have i: "i < length ds"
    by (simp add: updateHotkeysWithCustomSettings_def)
  have ov: "isOverlayOf (hs ! i) (ds ! i)"
    using overlay i len by (simp add: list_all2_nthD2)
  have same_keys: "map lookupKey hs = map lookupKey ds"
  proof (rule nth_equalityI)
    show "length (map lookupKey hs) = length (map lookupKey ds)"
      by (simp add: len)
    fix j
    assume "j < length (map lookupKey hs)"
    then have j: "j < length ds" by (simp add: len)
    have "isOverlayOf (hs ! j) (ds ! j)"
      using overlay j len by (simp add: list_all2_nthD2)
    then have "lookupKey (hs ! j) = lookupKey (ds ! j)"
      by (simp add: isOverlayOf_def lookupKey_def)
    then show "map lookupKey hs ! j = map lookupKey ds ! j"
      using j len by simp
  qed
  have key_i: "lookupKey (ds ! i) = lookupKey (hs ! i)"
    using same_keys i len by (metis nth_map)
  have "customHotkeysOf hs (lookupKey (hs ! i)) = Some (customSettingOf (hs ! i))"
    using keys same_keys i len by (intro customHotkeysOf_distinct) simp_all
  then have entry: "customHotkeysOf hs (lookupKey (ds ! i)) = Some (customSettingOf (hs ! i))"
    by (simp add: key_i)
  have merged: "updateHotkeysWithCustomSettings ds (customHotkeysOf hs) ! i =
      (if hk_label (hs ! i) \<noteq> []
       then (ds ! i)\<lparr>hk_key := hk_key (hs ! i), hk_active := hk_active (hs ! i),
                    hk_label := hk_label (hs ! i)\<rparr>
       else (ds ! i)\<lparr>hk_key := hk_key (hs ! i), hk_active := hk_active (hs ! i)\<rparr>)"
    using i
    by (simp add: updateHotkeysWithCustomSettings_def entry customSettingOf_def truthy_def)
  have "updateHotkeysWithCustomSettings ds (customHotkeysOf hs) ! i =
      (hs ! i)\<lparr>hk_mac := hk_mac (ds ! i)\<rparr>"
    using ov unfolding merged isOverlayOf_def
    by (intro Hotkey.equality) auto
  then show "updateHotkeysWithCustomSettings ds (customHotkeysOf hs) ! i =
      map2 (\<lambda>h d. h\<lparr>hk_mac := hk_mac d\<rparr>) hs ds ! i"
    using i len by simp
qed

lemma round_trip_of_editedState:
  "hotkeys (snd (exportThenImport exampleEnv now acceptingApi echoReload editedState)) =
     [undoDefault\<lparr>hk_key := ''ctrl+u''\<rparr>, redoDefault]"
  by (simp add: hotkeys_exportThenImport acceptingApi_succeeds hotkeys_loadHotkeysFromAPI
        echoReload_def requestBody_def customHotkeysOf_def hotkeys_editedState
        updateHotkeysWithCustomSettings_def exampleEnv_def lookupKey_def customSettingOf_def
        truthy_def undoDefault_def redoDefault_def)

text \<open>
  Claim C6 as written says that export followed by import reproduces every binding list
  field for field. After a successful save the import handler reloads, and the reload
  rebuilds the list from the compiled-in defaults and the overrides of the server. With a
  server that returns exactly what was saved: a binding whose key was edited carries
  \<open>mac\<close> equal to the new key before the round trip and the default's \<open>mac\<close> after it; and
  the empty list of the component's initial state comes back as the two default bindings.
\<close>

theorem export_import_changes_binding_list:
  "hotkeys editedState =
     [undoDefault\<lparr>hk_key := ''ctrl+u'', hk_mac := Some ''ctrl+u''\<rparr>, redoDefault]
   \<and> hotkeys (snd (exportThenImport exampleEnv ''2026-01-01T00:00:00.000Z'' acceptingApi
        echoReload editedState)) =
     [undoDefault\<lparr>hk_key := ''ctrl+u''\<rparr>, redoDefault]
   \<and> undoDefault\<lparr>hk_key := ''ctrl+u''\<rparr> \<noteq>
       undoDefault\<lparr>hk_key := ''ctrl+u'', hk_mac := Some ''ctrl+u''\<rparr>
   \<and> hotkeys initialState = []
   \<and> map hk_id (hotkeys (snd (exportThenImport exampleEnv ''2026-01-01T00:00:00.000Z''
        acceptingApi echoReload initialState))) = [''1'', ''2'']"
  by (simp add: round_trip_of_editedState hotkeys_editedState)
     (simp add: hotkeys_exportThenImport acceptingApi_succeeds hotkeys_loadHotkeysFromAPI
        merge_keeps_identity_fields exampleEnv_def initialState_def undoDefault_def
        redoDefault_def)

lemma map_field_of_overlay:
  fixes hs ds :: "Hotkey list"
  assumes "length hs = length ds"
    and "\<And>(h :: Hotkey) (d :: Hotkey). f (h\<lparr>hk_mac := hk_mac d\<rparr>) = f h"
  shows "map f (map2 (\<lambda>h d. h\<lparr>hk_mac := hk_mac d\<rparr>) hs ds) = map f hs"
  using assms(1)
proof (induction hs ds rule: list_induct2)
  case Nil
  show ?case by simp
next
  case (Cons h hs d ds)
  then show ?case
    using assms(2) [where h = h and d = d] by simp
qed

text \<open>
  Claim C6, amended: export followed by import of the written file first makes the
  exported list the local list. When the save request of the import fails, the list stays
  exactly the exported one. When it succeeds, the list is replaced by what the loader
  builds from the reload: the compiled-in defaults merged with overrides, so id, section,
  element and \<open>mac\<close> are the defaults'. When, moreover, the reload returns the override map
  that was saved, the original list is an overlay of the defaults (position by position
  the same id, section, element, subgroup and description, and a label that is not empty
  or is the default's) and the defaults' \<open>section:element\<close> keys are pairwise distinct,
  the result agrees with the original in id, section, element, label, key and active flag
  of every binding, and differs from it at most in \<open>mac\<close>, which is the default's.
\<close>

theorem export_import_round_trip:
  fixes env :: Env and st :: ManagerState and now :: string
    and callApi reload :: "RequestBody \<Rightarrow> ApiOutcome"
  defines "settings \<equiv> \<lparr>hs_autoTranslatePlatforms = autoTranslatePlatforms st\<rparr>"
  defines "body \<equiv> requestBody (hotkeys st) settings"
  defines "result \<equiv> hotkeys (snd (exportThenImport env now callApi reload st))"
  shows "(saveFailed (snd (saveHotkeysToAPI env callApi (hotkeys st) settings)) \<longrightarrow>
            result = hotkeys st)
    \<and> (\<not> saveFailed (snd (saveHotkeysToAPI env callApi (hotkeys st) settings)) \<longrightarrow>
         result = hotkeys (loadHotkeysFromAPI env (reload body) st)
         \<and> map hk_id result = map hk_id (DEFAULT_HOTKEYS env)
         \<and> map hk_section result = map hk_section (DEFAULT_HOTKEYS env)
         \<and> map hk_element result = map hk_element (DEFAULT_HOTKEYS env)
         \<and> map hk_mac result = map hk_mac (DEFAULT_HOTKEYS env))
    \<and> (\<not> saveFailed (snd (saveHotkeysToAPI env callApi (hotkeys st) settings))
        \<and> (\<exists>r. reload body = Resolved (Some r)
                 \<and> ar_custom_hotkeys r = Some (rb_custom_hotkeys body))
        \<and> list_all2 isOverlayOf (hotkeys st) (DEFAULT_HOTKEYS env)
        \<and> distinct (map lookupKey (DEFAULT_HOTKEYS env)) \<longrightarrow>
         result = map2 (\<lambda>h d. h\<lparr>hk_mac := hk_mac d\<rparr>) (hotkeys st) (DEFAULT_HOTKEYS env)
         \<and> map hk_id result = map hk_id (hotkeys st)
         \<and> map hk_section result = map hk_section (hotkeys st)
         \<and> map hk_element result = map hk_element (hotkeys st)
         \<and> map hk_label result = map hk_label (hotkeys st)
         \<and> map hk_key result = map hk_key (hotkeys st)
         \<and> map hk_active result = map hk_active (hotkeys st))"
  (is "(?failed \<longrightarrow> ?kept) \<and> (\<not> ?failed \<longrightarrow> ?reloaded) \<and> (?echoed \<longrightarrow> ?reproduced)")
proof -
  have kept: "?failed \<longrightarrow> ?kept"
    by (simp add: result_def settings_def hotkeys_exportThenImport)
  have reloaded: "\<not> ?failed \<longrightarrow> ?reloaded"
  proof
    assume "\<not> ?failed"
    then have "result = hotkeys (loadHotkeysFromAPI env (reload body) st)"
      by (simp add: result_def body_def settings_def hotkeys_exportThenImport)
    then show ?reloaded
      by (simp add: hotkeys_loadHotkeysFromAPI merge_keeps_identity_fields)
  qed
  have reproduced: "?echoed \<longrightarrow> ?reproduced"
  proof
    assume echoed: ?echoed
    then obtain r where r: "reload body = Resolved (Some r)"
        "ar_custom_hotkeys r = Some (rb_custom_hotkeys body)"
      by blast
    have overlay: "list_all2 isOverlayOf (hotkeys st) (DEFAULT_HOTKEYS env)"
      and keys: "distinct (map lookupKey (DEFAULT_HOTKEYS env))"
      using echoed by simp_all
    have len: "length (hotkeys st) = length (DEFAULT_HOTKEYS env)"
      using overlay by (rule list_all2_lengthD)
    have sent: "rb_custom_hotkeys body = customHotkeysOf (hotkeys st)"
      by (simp add: body_def requestBody_def)
    have "result = hotkeys (loadHotkeysFromAPI env (reload body) st)"
      using echoed by (simp add: result_def body_def settings_def hotkeys_exportThenImport)
    also have "\<dots> = updateHotkeysWithCustomSettings (DEFAULT_HOTKEYS env)
        (customHotkeysOf (hotkeys st))"
      by (simp add: hotkeys_loadHotkeysFromAPI r sent)
    also have "\<dots> = map2 (\<lambda>h d. h\<lparr>hk_mac := hk_mac d\<rparr>) (hotkeys st) (DEFAULT_HOTKEYS env)"
      using overlay keys by (rule merge_of_overlay)
    finally have result:
      "result = map2 (\<lambda>h d. h\<lparr>hk_mac := hk_mac d\<rparr>) (hotkeys st) (DEFAULT_HOTKEYS env)" .
    have fields:
      "map hk_id (map2 (\<lambda>h d. h\<lparr>hk_mac := hk_mac d\<rparr>) (hotkeys st) (DEFAULT_HOTKEYS env)) =
         map hk_id (hotkeys st)"
      "map hk_section (map2 (\<lambda>h d. h\<lparr>hk_mac := hk_mac d\<rparr>) (hotkeys st) (DEFAULT_HOTKEYS env)) =
         map hk_section (hotkeys st)"
      "map hk_element (map2 (\<lambda>h d. h\<lparr>hk_mac := hk_mac d\<rparr>) (hotkeys st) (DEFAULT_HOTKEYS env)) =
         map hk_element (hotkeys st)"
      "map hk_label (map2 (\<lambda>h d. h\<lparr>hk_mac := hk_mac d\<rparr>) (hotkeys st) (DEFAULT_HOTKEYS env)) =
         map hk_label (hotkeys st)"
      "map hk_key (map2 (\<lambda>h d. h\<lparr>hk_mac := hk_mac d\<rparr>) (hotkeys st) (DEFAULT_HOTKEYS env)) =
         map hk_key (hotkeys st)"
      "map hk_active (map2 (\<lambda>h d. h\<lparr>hk_mac := hk_mac d\<rparr>) (hotkeys st) (DEFAULT_HOTKEYS env)) =
         map hk_active (hotkeys st)"
      by (rule map_field_of_overlay [OF len], simp)+
    show ?reproduced
      by (simp only: result fields simp_thms)
  qed
  show ?thesis
    using kept reloaded reproduced by (intro conjI)
qed

theorem export_import_round_trip_witness:
  "hotkeys (snd (exportThenImport exampleEnv ''2026-01-01T00:00:00.000Z'' refusingApi
       echoReload editedState)) =
     [undoDefault\<lparr>hk_key := ''ctrl+u'', hk_mac := Some ''ctrl+u''\<rparr>, redoDefault]
   \<and> hotkeys (snd (exportThenImport exampleEnv ''2026-01-01T00:00:00.000Z'' acceptingApi
       echoReload editedState)) =
     [undoDefault\<lparr>hk_key := ''ctrl+u''\<rparr>, redoDefault]"
proof -
  have overlay: "list_all2 isOverlayOf (hotkeys editedState) (DEFAULT_HOTKEYS exampleEnv)"
    by (simp add: hotkeys_editedState exampleEnv_def isOverlayOf_def undoDefault_def
          redoDefault_def)
  have keys: "distinct (map lookupKey (DEFAULT_HOTKEYS exampleEnv))"
    by (simp add: exampleEnv_def lookupKey_def undoDefault_def redoDefault_def)
  have echo: "\<exists>r. echoReload (requestBody (hotkeys editedState)
        \<lparr>hs_autoTranslatePlatforms = autoTranslatePlatforms editedState\<rparr>) = Resolved (Some r)
      \<and> ar_custom_hotkeys r = Some (rb_custom_hotkeys (requestBody (hotkeys editedState)
        \<lparr>hs_autoTranslatePlatforms = autoTranslatePlatforms editedState\<rparr>))"
    by (simp add: echoReload_def)
  have defaults: "DEFAULT_HOTKEYS exampleEnv = [undoDefault, redoDefault]"
    by (simp add: exampleEnv_def)
  have failed: "saveFailed (snd (saveHotkeysToAPI exampleEnv refusingApi (hotkeys editedState)
      \<lparr>hs_autoTranslatePlatforms = autoTranslatePlatforms editedState\<rparr>))"
    by (rule refusingApi_fails)
  have succeeded: "\<not> saveFailed (snd (saveHotkeysToAPI exampleEnv acceptingApi
      (hotkeys editedState) \<lparr>hs_autoTranslatePlatforms = autoTranslatePlatforms editedState\<rparr>))"
    by (rule acceptingApi_succeeds)
  have first: "hotkeys (snd (exportThenImport exampleEnv ''2026-01-01T00:00:00.000Z''
      refusingApi echoReload editedState)) = hotkeys editedState"
    using export_import_round_trip
            [where env = exampleEnv and st = editedState and callApi = refusingApi
               and reload = echoReload and now = "''2026-01-01T00:00:00.000Z''"]
          failed
    by blast
  have second: "hotkeys (snd (exportThenImport exampleEnv ''2026-01-01T00:00:00.000Z''
      acceptingApi echoReload editedState)) =
      map2 (\<lambda>h d. h\<lparr>hk_mac := hk_mac d\<rparr>) (hotkeys editedState) (DEFAULT_HOTKEYS exampleEnv)"
    using export_import_round_trip
            [where env = exampleEnv and st = editedState and callApi = acceptingApi
               and reload = echoReload and now = "''2026-01-01T00:00:00.000Z''"]
          succeeded echo overlay keys
    by blast
  show ?thesis
    by (simp add: first second hotkeys_editedState defaults undoDefault_def redoDefault_def)
qed

end
